theory Spec2Isabelle
  imports Main "HOL-Library.Sublist" "HOL-Library.AList"
begin

section \<open>Values, faults and the outside world\<close>

text \<open>
  The program is one Python module, \<^verbatim>\<open>server.py\<close>. Python strings are modelled as
  \<^typ>\<open>string\<close>, so \<^verbatim>\<open>len(s)\<close> is \<^term>\<open>length s\<close>. A point in time (a UTC
  \<^verbatim>\<open>datetime\<close>) is a number; how it is rendered by \<^verbatim>\<open>isoformat()\<close> is left to the
  environment.
\<close>

type_synonym time = int

text \<open>
  The Python values a credential attribute or a key of the credential file holds:
  \<^verbatim>\<open>None\<close> (JSON \<^verbatim>\<open>null\<close>), a \<^verbatim>\<open>str\<close>, or a list of \<^verbatim>\<open>str\<close>.
\<close>

datatype val = VNone | VStr string | VList "string list"

text \<open>Python truthiness of such a value, as used by \<^verbatim>\<open>and\<close>, \<^verbatim>\<open>or\<close>, \<^verbatim>\<open>if\<close>.\<close>

fun truthy :: "val \<Rightarrow> bool" where
  "truthy VNone = False"
| "truthy (VStr s) = (s \<noteq> [])"
| "truthy (VList xs) = (xs \<noteq> [])"

text \<open>
  JSON resources of the remote services (events, tasks). An object is an association
  list: \<^verbatim>\<open>d[k] = v\<close> is \<^const>\<open>AList.update\<close> (the key keeps its place, a new key is
  appended), \<^verbatim>\<open>d.get(k)\<close> is \<^const>\<open>map_of\<close>, \<^verbatim>\<open>d.pop(k, None)\<close> is
  \<^const>\<open>AList.delete\<close>.
\<close>

datatype json =
    JNull
  | JBool bool
  | JNum int
  | JStr string
  | JArr "json list"
  | JObj "(string \<times> json) list"

type_synonym dict = "(string \<times> json) list"

text \<open>
  Python exceptions. \<^verbatim>\<open>HttpError\<close> carries \<^verbatim>\<open>e.resp.status\<close> and what
  \<^verbatim>\<open>e._get_reason()\<close> returns. Every other subclass of \<^verbatim>\<open>Exception\<close> carries its
  class and \<^verbatim>\<open>str(e)\<close>. \<^verbatim>\<open>KeyboardInterrupt\<close> and \<^verbatim>\<open>SystemExit\<close> derive from
  \<^verbatim>\<open>BaseException\<close> only: they are requests to stop the process, not faults of an
  operation.
\<close>

datatype exc_class =
    RuntimeError
  | JSONDecodeError
  | AttributeError
  | RefreshError
  | OtherError string

datatype exc =
    HttpError nat string
  | Exception exc_class string
  | ProcessExit string


text \<open>Decimal rendering of a non-negative integer, as an f-string renders an \<^verbatim>\<open>int\<close>.\<close>

definition digit_char :: "nat \<Rightarrow> char" where
  "digit_char d = char_of (48 + d)"

fun show_nat :: "nat \<Rightarrow> string" where
  "show_nat n = (if n < 10 then [digit_char n] else show_nat (n div 10) @ [digit_char (n mod 10)])"

declare show_nat.simps [simp del]

section \<open>Credentials\<close>

text \<open>
  \<^verbatim>\<open>google.oauth2.credentials.Credentials\<close>, reduced to the attributes the module
  touches. The class belongs to the google-auth library; its constructor stores what it
  is given and leaves \<^verbatim>\<open>expiry\<close> at \<^verbatim>\<open>None\<close> unless an expiry is passed.
\<close>

record creds =
  token :: val
  refresh_token :: val
  token_uri :: val
  client_id :: val
  client_secret :: val
  scopes :: val
  expiry :: "time option"

definition SCOPES :: "string list" where
  "SCOPES =
     [''https://www.googleapis.com/auth/calendar'',
      ''https://www.googleapis.com/auth/calendar.events'',
      ''https://www.googleapis.com/auth/tasks'']"

text \<open>
  What \<^verbatim>\<open>CREDS_PATH\<close> holds, classified by what \<^verbatim>\<open>json.loads\<close> makes of it: no
  file; text that \<^verbatim>\<open>json.loads\<close> rejects (with the decoder's message); JSON whose
  top-level value is not an object (with the Python type name of the value); a JSON
  object. \<^verbatim>\<open>json.loads\<close> gives back the dictionary that \<^verbatim>\<open>json.dumps\<close> was given.
\<close>

datatype disk_file =
    NoFile
  | NotJson string
  | NonObject string
  | JsonObject "(string \<times> val) list"

text \<open>
  Effects outside the process, in the order they happen: the token-refresh exchange, the
  interactive authorization flow (with the scopes it asks for), a write of the credential
  file, and the requests sent to the remote services.
\<close>

datatype effect =
    RefreshExchange
  | InteractiveFlow "string list"
  | WriteCreds "(string \<times> val) list"
  | EventsGet string string
  | EventsUpdate string string dict
  | EventsDelete string string
  | TasksGet string string
  | TasksUpdate string string dict

record world =
  creds_file :: disk_file
  client_secret_exists :: bool
  trace :: "effect list"

text \<open>
  The collaborators the module calls but does not define: the clock, \<^verbatim>\<open>isoformat\<close>, the
  library's refresh threshold, the path of \<^verbatim>\<open>client_secret.json\<close>, the token endpoint
  (\<^verbatim>\<open>creds.refresh\<close>), the consent flow (\<^verbatim>\<open>from_client_secrets_file\<close> followed by
  \<^verbatim>\<open>run_local_server\<close>), \<^verbatim>\<open>str()\<close> of a JSON value that is neither \<^verbatim>\<open>None\<close> nor a
  \<^verbatim>\<open>str\<close>, and the remote calendar and tasks services.
\<close>

record env =
  utcnow :: time
  isoformat :: "time \<Rightarrow> string"
  refresh_threshold :: int
  client_secret_path :: string
  refresh :: "creds \<Rightarrow> exc + creds"
  run_local_server :: "string list \<Rightarrow> exc + creds"
  py_str :: "json \<Rightarrow> string"
  events_get :: "creds \<Rightarrow> string \<Rightarrow> string \<Rightarrow> exc + dict"
  events_update :: "creds \<Rightarrow> string \<Rightarrow> string \<Rightarrow> dict \<Rightarrow> exc + dict"
  events_delete :: "creds \<Rightarrow> string \<Rightarrow> string \<Rightarrow> exc + unit"
  tasks_get :: "creds \<Rightarrow> string \<Rightarrow> string \<Rightarrow> exc + dict"
  tasks_update :: "creds \<Rightarrow> string \<Rightarrow> string \<Rightarrow> dict \<Rightarrow> exc + dict"

text \<open>
  The library's \<^verbatim>\<open>Credentials.expired\<close> and \<^verbatim>\<open>Credentials.valid\<close>: credentials whose
  \<^verbatim>\<open>expiry\<close> is \<^verbatim>\<open>None\<close> never expire; otherwise they count as expired from the
  refresh threshold before the expiry on. They are valid when there is a token and it is
  not expired.
\<close>

definition expired :: "env \<Rightarrow> creds \<Rightarrow> bool" where
  "expired e c =
     (case expiry c of None \<Rightarrow> False | Some t \<Rightarrow> t - refresh_threshold e \<le> utcnow e)"

definition valid :: "env \<Rightarrow> creds \<Rightarrow> bool" where
  "valid e c = (token c \<noteq> VNone \<and> \<not> expired e c)"

text \<open>\<^verbatim>\<open>list(creds.scopes or SCOPES)\<close>; \<^verbatim>\<open>list\<close> of a \<^verbatim>\<open>str\<close> is the list of its characters.\<close>

fun scopes_or_default :: "val \<Rightarrow> string list" where
  "scopes_or_default VNone = SCOPES"
| "scopes_or_default (VStr s) = (if s \<noteq> [] then map (\<lambda>c. [c]) s else SCOPES)"
| "scopes_or_default (VList xs) = (if xs \<noteq> [] then xs else SCOPES)"

text \<open>The dictionary \<^verbatim>\<open>_save_creds\<close> serializes (lines 36 to 45).\<close>

definition creds_data :: "env \<Rightarrow> creds \<Rightarrow> (string \<times> val) list" where
  "creds_data e c =
     (let data =
            [(''token'', token c),
             (''refresh_token'', refresh_token c),
             (''token_uri'', token_uri c),
             (''client_id'', client_id c),
             (''client_secret'', client_secret c),
             (''scopes'', VList (scopes_or_default (scopes c)))]
      in case expiry c of
           None \<Rightarrow> data
         | Some t \<Rightarrow> AList.update ''expiry'' (VStr (isoformat e t)) data)"

text \<open>\<^verbatim>\<open>_save_creds\<close>: one \<^verbatim>\<open>write_text\<close> onto \<^verbatim>\<open>CREDS_PATH\<close>.\<close>

definition save_creds :: "env \<Rightarrow> creds \<Rightarrow> world \<Rightarrow> world" where
  "save_creds e c w =
     w\<lparr>creds_file := JsonObject (creds_data e c),
       trace := trace w @ [WriteCreds (creds_data e c)]\<rparr>"

text \<open>\<^verbatim>\<open>data.get(key, default)\<close>.\<close>

definition dict_get :: "(string \<times> 'v) list \<Rightarrow> string \<Rightarrow> 'v \<Rightarrow> 'v" where
  "dict_get d k dflt = (case map_of d k of None \<Rightarrow> dflt | Some v \<Rightarrow> v)"

text \<open>
  The first part of \<^verbatim>\<open>_load_creds\<close> (lines 51 to 62), the store's load: \<^verbatim>\<open>None\<close> when
  there is no file; \<^verbatim>\<open>json.loads\<close> raises on text that is not JSON; \<^verbatim>\<open>data.get\<close> raises
  \<^verbatim>\<open>AttributeError\<close> on a value that is not a dictionary. The \<^verbatim>\<open>expiry\<close> key is not
  read.
\<close>

definition read_creds :: "world \<Rightarrow> exc + creds option" where
  "read_creds w =
     (case creds_file w of
        NoFile \<Rightarrow> Inr None
      | NotJson msg \<Rightarrow> Inl (Exception JSONDecodeError msg)
      | NonObject ty \<Rightarrow>
          Inl (Exception AttributeError ([CHR 0x27] @ ty @ [CHR 0x27] @ '' object has no attribute '' @ [CHR 0x27] @ ''get'' @ [CHR 0x27]))
      | JsonObject data \<Rightarrow>
          Inr (Some \<lparr>token = dict_get data ''token'' VNone,
                     refresh_token = dict_get data ''refresh_token'' VNone,
                     token_uri = dict_get data ''token_uri'' (VStr ''https://oauth2.googleapis.com/token''),
                     client_id = dict_get data ''client_id'' VNone,
                     client_secret = dict_get data ''client_secret'' VNone,
                     scopes = dict_get data ''scopes'' (VList SCOPES),
                     expiry = None\<rparr>))"

text \<open>Lines 64 to 66: refresh when expired and a refresh token is there, then save.\<close>

definition refresh_if_expired :: "env \<Rightarrow> creds option \<Rightarrow> world \<Rightarrow> (exc + creds option) \<times> world" where
  "refresh_if_expired e co w =
     (case co of
        None \<Rightarrow> (Inr None, w)
      | Some c \<Rightarrow>
          if expired e c \<and> truthy (refresh_token c) then
            (case refresh e c of
               Inl x \<Rightarrow> (Inl x, w\<lparr>trace := trace w @ [RefreshExchange]\<rparr>)
             | Inr c' \<Rightarrow> (Inr (Some c'), save_creds e c' (w\<lparr>trace := trace w @ [RefreshExchange]\<rparr>)))
          else (Inr (Some c), w))"

text \<open>
  Lines 69 to 73: the interactive flow, which needs \<^verbatim>\<open>client_secret.json\<close>, asks for
  \<^verbatim>\<open>SCOPES\<close> and saves what it is granted.
\<close>

definition interactive_flow :: "env \<Rightarrow> world \<Rightarrow> (exc + creds) \<times> world" where
  "interactive_flow e w =
     (if \<not> client_secret_exists w then
        (Inl (Exception RuntimeError
                (''No credentials and no client_secret.json at '' @ client_secret_path e)), w)
      else
        (case run_local_server e SCOPES of
           Inl x \<Rightarrow> (Inl x, w\<lparr>trace := trace w @ [InteractiveFlow SCOPES]\<rparr>)
         | Inr c \<Rightarrow> (Inr c, save_creds e c (w\<lparr>trace := trace w @ [InteractiveFlow SCOPES]\<rparr>))))"

text \<open>Lines 68 to 75: \<^verbatim>\<open>if not creds or not creds.valid\<close>, the flow; then \<^verbatim>\<open>return creds\<close>.\<close>

definition authorize_if_invalid :: "env \<Rightarrow> creds option \<Rightarrow> world \<Rightarrow> (exc + creds) \<times> world" where
  "authorize_if_invalid e co w =
     (case co of
        None \<Rightarrow> interactive_flow e w
      | Some c \<Rightarrow> if \<not> valid e c then interactive_flow e w else (Inr c, w))"

text \<open>\<^verbatim>\<open>_load_creds\<close>, the Authenticator.\<close>

definition load_creds :: "env \<Rightarrow> world \<Rightarrow> (exc + creds) \<times> world" where
  "load_creds e w =
     (case read_creds w of
        Inl x \<Rightarrow> (Inl x, w)
      | Inr co \<Rightarrow>
          (case refresh_if_expired e co w of
             (Inl x, w') \<Rightarrow> (Inl x, w')
           | (Inr co', w') \<Rightarrow> authorize_if_invalid e co' w'))"

section \<open>Service clients and the error adapter\<close>

text \<open>
  \<^verbatim>\<open>_calendar\<close> and \<^verbatim>\<open>_tasks\<close>: a handle bound to the credentials that
  \<^verbatim>\<open>_load_creds\<close> returns. The handle is modelled by the credentials themselves.
\<close>

definition calendar :: "env \<Rightarrow> world \<Rightarrow> (exc + creds) \<times> world" where
  "calendar e w = load_creds e w"

definition tasks :: "env \<Rightarrow> world \<Rightarrow> (exc + creds) \<times> world" where
  "tasks e w = load_creds e w"

text \<open>
  \<^verbatim>\<open>_api_error_handler\<close>: the \<^verbatim>\<open>except HttpError\<close> clause comes first, then
  \<^verbatim>\<open>except Exception\<close>; anything else passes through.
\<close>

definition api_error_handler ::
  "(world \<Rightarrow> (exc + string) \<times> world) \<Rightarrow> world \<Rightarrow> (exc + string) \<times> world" where
  "api_error_handler func w =
     (case func w of
        (Inr v, w') \<Rightarrow> (Inr v, w')
      | (Inl (HttpError st reason), w') \<Rightarrow>
          (Inr (''Google API error '' @ show_nat st @ '': '' @ reason), w')
      | (Inl (Exception cls msg), w') \<Rightarrow> (Inr (''Error: '' @ msg), w')
      | (Inl (ProcessExit msg), w') \<Rightarrow> (Inl (ProcessExit msg), w'))"

text \<open>An f-string field \<^verbatim>\<open>{d.get(k)}\<close>: \<^verbatim>\<open>str\<close> of the value, \<^verbatim>\<open>None\<close> when missing.\<close>

definition fmt :: "env \<Rightarrow> json option \<Rightarrow> string" where
  "fmt e x =
     (case x of
        None \<Rightarrow> ''None''
      | Some JNull \<Rightarrow> ''None''
      | Some (JStr s) \<Rightarrow> s
      | Some v \<Rightarrow> py_str e v)"

definition newline :: string where
  "newline = [CHR 0x0A]"

section \<open>Calendar tools\<close>

text \<open>
  Lines 294 to 299 (and 302 to 307): the value stored under \<^verbatim>\<open>start\<close> or \<^verbatim>\<open>end\<close>. A
  text of length 10 is a date; \<^verbatim>\<open>if timezone:\<close> skips \<^verbatim>\<open>None\<close> and the empty string.
\<close>

definition when_value :: "string \<Rightarrow> string option \<Rightarrow> json" where
  "when_value t timezone =
     (if length t = 10 then JObj [(''date'', JStr t)]
      else
        (case timezone of
           None \<Rightarrow> JObj [(''dateTime'', JStr t)]
         | Some tz \<Rightarrow>
             if tz \<noteq> [] then JObj (AList.update ''timeZone'' (JStr tz) [(''dateTime'', JStr t)])
             else JObj [(''dateTime'', JStr t)]))"

text \<open>Lines 284 to 307 of \<^verbatim>\<open>modify_event\<close>: the fetched event with the given fields set.\<close>

definition modify_event_fields ::
  "dict \<Rightarrow> string option \<Rightarrow> string option \<Rightarrow> string option \<Rightarrow> string option \<Rightarrow> string option \<Rightarrow>
   string list option \<Rightarrow> string option \<Rightarrow> dict" where
  "modify_event_fields ev summary start end_arg description location attendees timezone =
     (let ev1 = (case summary of None \<Rightarrow> ev | Some s \<Rightarrow> AList.update ''summary'' (JStr s) ev);
          ev2 = (case description of None \<Rightarrow> ev1 | Some d \<Rightarrow> AList.update ''description'' (JStr d) ev1);
          ev3 = (case location of None \<Rightarrow> ev2 | Some l \<Rightarrow> AList.update ''location'' (JStr l) ev2);
          ev4 = (case attendees of
                   None \<Rightarrow> ev3
                 | Some as \<Rightarrow>
                     AList.update ''attendees'' (JArr (map (\<lambda>a. JObj [(''email'', JStr a)]) as)) ev3);
          ev5 = (case start of None \<Rightarrow> ev4 | Some t \<Rightarrow> AList.update ''start'' (when_value t timezone) ev4)
      in case end_arg of None \<Rightarrow> ev5 | Some t \<Rightarrow> AList.update ''end'' (when_value t timezone) ev5)"

text \<open>The body of \<^verbatim>\<open>modify_event\<close>, before the decorators.\<close>

definition modify_event_body ::
  "env \<Rightarrow> string \<Rightarrow> string option \<Rightarrow> string option \<Rightarrow> string option \<Rightarrow> string option \<Rightarrow> string option \<Rightarrow>
   string list option \<Rightarrow> string option \<Rightarrow> string \<Rightarrow> world \<Rightarrow> (exc + string) \<times> world" where
  "modify_event_body e event_id summary start end_arg description location attendees timezone calendar_id w =
     (case calendar e w of
        (Inl x, w1) \<Rightarrow> (Inl x, w1)
      | (Inr svc, w1) \<Rightarrow>
          (let w2 = w1\<lparr>trace := trace w1 @ [EventsGet calendar_id event_id]\<rparr> in
           case events_get e svc calendar_id event_id of
             Inl x \<Rightarrow> (Inl x, w2)
           | Inr ev \<Rightarrow>
               (let body = modify_event_fields ev summary start end_arg description location attendees timezone;
                    w3 = w2\<lparr>trace := trace w2 @ [EventsUpdate calendar_id event_id body]\<rparr>
                in case events_update e svc calendar_id event_id body of
                     Inl x \<Rightarrow> (Inl x, w3)
                   | Inr updated \<Rightarrow>
                       (Inr (''Event updated: '' @ fmt e (map_of updated ''summary'') @ newline @
                             ''Link: '' @ fmt e (map_of updated ''htmlLink'')), w3))))"

definition modify_event ::
  "env \<Rightarrow> string \<Rightarrow> string option \<Rightarrow> string option \<Rightarrow> string option \<Rightarrow> string option \<Rightarrow> string option \<Rightarrow>
   string list option \<Rightarrow> string option \<Rightarrow> string \<Rightarrow> world \<Rightarrow> (exc + string) \<times> world" where
  "modify_event e event_id summary start end_arg description location attendees timezone calendar_id =
     api_error_handler
       (modify_event_body e event_id summary start end_arg description location attendees timezone calendar_id)"

text \<open>The body of \<^verbatim>\<open>delete_event\<close>, and the decorated tool.\<close>

definition delete_event_body :: "env \<Rightarrow> string \<Rightarrow> string \<Rightarrow> world \<Rightarrow> (exc + string) \<times> world" where
  "delete_event_body e event_id calendar_id w =
     (case calendar e w of
        (Inl x, w1) \<Rightarrow> (Inl x, w1)
      | (Inr svc, w1) \<Rightarrow>
          (let w2 = w1\<lparr>trace := trace w1 @ [EventsDelete calendar_id event_id]\<rparr> in
           case events_delete e svc calendar_id event_id of
             Inl x \<Rightarrow> (Inl x, w2)
           | Inr u \<Rightarrow> (Inr (''Event '' @ event_id @ '' deleted.''), w2)))"

definition delete_event :: "env \<Rightarrow> string \<Rightarrow> string \<Rightarrow> world \<Rightarrow> (exc + string) \<times> world" where
  "delete_event e event_id calendar_id = api_error_handler (delete_event_body e event_id calendar_id)"

section \<open>Tasks tools\<close>

text \<open>Lines 502 to 513 of \<^verbatim>\<open>update_task\<close>: the fetched task with the given fields set.\<close>

definition update_task_fields ::
  "env \<Rightarrow> dict \<Rightarrow> string option \<Rightarrow> string option \<Rightarrow> string option \<Rightarrow> string option \<Rightarrow> dict" where
  "update_task_fields e t title notes status due =
     (let t1 = (case title of None \<Rightarrow> t | Some s \<Rightarrow> AList.update ''title'' (JStr s) t);
          t2 = (case notes of None \<Rightarrow> t1 | Some n \<Rightarrow> AList.update ''notes'' (JStr n) t1);
          t3 = (case status of
                  None \<Rightarrow> t2
                | Some s \<Rightarrow>
                    (let t' = AList.update ''status'' (JStr s) t2 in
                     if s = ''completed'' then
                       AList.update ''completed'' (JStr (isoformat e (utcnow e))) t'
                     else if s = ''needsAction'' then AList.delete ''completed'' t'
                     else t'))
      in case due of None \<Rightarrow> t3 | Some d \<Rightarrow> AList.update ''due'' (JStr d) t3)"

definition update_task_body ::
  "env \<Rightarrow> string \<Rightarrow> string \<Rightarrow> string option \<Rightarrow> string option \<Rightarrow> string option \<Rightarrow> string option \<Rightarrow>
   world \<Rightarrow> (exc + string) \<times> world" where
  "update_task_body e task_list_id task_id title notes status due w =
     (case tasks e w of
        (Inl x, w1) \<Rightarrow> (Inl x, w1)
      | (Inr svc, w1) \<Rightarrow>
          (let w2 = w1\<lparr>trace := trace w1 @ [TasksGet task_list_id task_id]\<rparr> in
           case tasks_get e svc task_list_id task_id of
             Inl x \<Rightarrow> (Inl x, w2)
           | Inr t \<Rightarrow>
               (let body = update_task_fields e t title notes status due;
                    w3 = w2\<lparr>trace := trace w2 @ [TasksUpdate task_list_id task_id body]\<rparr>
                in case tasks_update e svc task_list_id task_id body of
                     Inl x \<Rightarrow> (Inl x, w3)
                   | Inr updated \<Rightarrow>
                       (Inr (''Task updated: '' @ fmt e (map_of updated ''title'') @ newline @
                             ''Status: '' @ fmt e (map_of updated ''status'')), w3))))"

definition update_task ::
  "env \<Rightarrow> string \<Rightarrow> string \<Rightarrow> string option \<Rightarrow> string option \<Rightarrow> string option \<Rightarrow> string option \<Rightarrow>
   world \<Rightarrow> (exc + string) \<times> world" where
  "update_task e task_list_id task_id title notes status due =
     api_error_handler (update_task_body e task_list_id task_id title notes status due)"

section \<open>A fake environment for concrete runs\<close>

text \<open>
  A token endpoint that hands out a fresh token, a consent flow that grants what is asked
  for (the sample credential set, expiring at 4600), a calendar service that knows one event and refuses to delete with 404, and a
  tasks service that knows one completed task; both services echo an update back.
\<close>

definition fake_event :: dict where
  "fake_event =
     [(''id'', JStr ''E1''),
      (''summary'', JStr ''Standup''),
      (''start'', JObj [(''dateTime'', JStr ''2026-02-28T10:00:00+01:00'')]),
      (''end'', JObj [(''dateTime'', JStr ''2026-02-28T10:15:00+01:00'')]),
      (''htmlLink'', JStr ''https://calendar.example/E1'')]"

definition fake_task :: dict where
  "fake_task =
     [(''id'', JStr ''T1''),
      (''title'', JStr ''Buy milk''),
      (''status'', JStr ''completed''),
      (''completed'', JStr ''2026-02-27T09:00:00+00:00'')]"

text \<open>A credential set with the given scope list and expiry.\<close>

definition sample_creds :: "val \<Rightarrow> time option \<Rightarrow> creds" where
  "sample_creds sc ex =
     \<lparr>token = VStr ''tok'', refresh_token = VStr ''r0'',
      token_uri = VStr ''https://oauth2.googleapis.com/token'',
      client_id = VStr ''cid'', client_secret = VStr ''sec'',
      scopes = sc, expiry = ex\<rparr>"

definition fake_env :: env where
  "fake_env =
     \<lparr>utcnow = 1000,
      isoformat = (\<lambda>t. ''T'' @ show_nat (nat t)),
      refresh_threshold = 225,
      client_secret_path = ''/srv/gapi/client_secret.json'',
      refresh = (\<lambda>c. Inr (c\<lparr>token := VStr ''fresh'', expiry := Some 4600\<rparr>)),
      run_local_server = (\<lambda>sc. Inr (sample_creds (VList sc) (Some 4600))),
      py_str = (\<lambda>v. ''?''),
      events_get = (\<lambda>svc cal eid. Inr fake_event),
      events_update = (\<lambda>svc cal eid body. Inr body),
      events_delete = (\<lambda>svc cal eid. Inl (HttpError 404 ''Not Found'')),
      tasks_get = (\<lambda>svc tl tid. Inr fake_task),
      tasks_update = (\<lambda>svc tl tid body. Inr body)\<rparr>"

text \<open>
  The world in which \<^verbatim>\<open>_save_creds\<close> has written a credential set to the credential
  file, and a world with a given file. The fake clock stands at 1000.
\<close>

definition on_disk :: "creds \<Rightarrow> world" where
  "on_disk c =
     \<lparr>creds_file = JsonObject (creds_data fake_env c), client_secret_exists = True, trace = []\<rparr>"

definition fake_world :: "disk_file \<Rightarrow> bool \<Rightarrow> world" where
  "fake_world f secret = \<lparr>creds_file = f, client_secret_exists = secret, trace = []\<rparr>"

section \<open>Helper facts\<close>


lemma snd_api_error_handler: "snd (api_error_handler func w) = snd (func w)"
  by (simp add: api_error_handler_def split: prod.splits sum.splits exc.splits)

lemma map_of_creds_data:
  "map_of (creds_data e c) ''token'' = Some (token c)"
  "map_of (creds_data e c) ''refresh_token'' = Some (refresh_token c)"
  "map_of (creds_data e c) ''token_uri'' = Some (token_uri c)"
  "map_of (creds_data e c) ''client_id'' = Some (client_id c)"
  "map_of (creds_data e c) ''client_secret'' = Some (client_secret c)"
  "map_of (creds_data e c) ''scopes'' = Some (VList (scopes_or_default (scopes c)))"
  by (simp_all add: creds_data_def Let_def update_conv' split: option.splits)

text \<open>What the store's load makes of a file that \<^verbatim>\<open>_save_creds\<close> wrote.\<close>

lemma read_after_save:
  "read_creds (save_creds e X w) =
     Inr (Some \<lparr>token = token X, refresh_token = refresh_token X, token_uri = token_uri X,
                client_id = client_id X, client_secret = client_secret X,
                scopes = VList (scopes_or_default (scopes X)), expiry = None\<rparr>)"
  by (simp add: read_creds_def save_creds_def dict_get_def map_of_creds_data)

text \<open>
  A JSON object with a token: the loaded credentials have no expiry, so they are neither
  expired nor invalid, and \<^verbatim>\<open>_load_creds\<close> returns them without touching the world.
\<close>

lemma load_object:
  "creds_file w = JsonObject d \<Longrightarrow> dict_get d ''token'' VNone \<noteq> VNone \<Longrightarrow>
   load_creds e w =
     (Inr \<lparr>token = dict_get d ''token'' VNone,
           refresh_token = dict_get d ''refresh_token'' VNone,
           token_uri = dict_get d ''token_uri'' (VStr ''https://oauth2.googleapis.com/token''),
           client_id = dict_get d ''client_id'' VNone,
           client_secret = dict_get d ''client_secret'' VNone,
           scopes = dict_get d ''scopes'' (VList SCOPES),
           expiry = None\<rparr>, w)"
  by (simp add: load_creds_def read_creds_def refresh_if_expired_def authorize_if_invalid_def interactive_flow_def
      expired_def valid_def)

lemma load_on_disk:
  "token c \<noteq> VNone \<Longrightarrow>
   load_creds e (on_disk c) =
     (Inr (c\<lparr>scopes := VList (scopes_or_default (scopes c)), expiry := None\<rparr>), on_disk c)"
  by (simp add: load_object[of _ "creds_data fake_env c"] on_disk_def dict_get_def map_of_creds_data)

lemma sample_token: "token (sample_creds sc ex) \<noteq> VNone"
  by (simp add: sample_creds_def)

lemma sample_scopes: "scopes_or_default (scopes (sample_creds (VList SCOPES) ex)) = SCOPES"
  by (simp add: sample_creds_def SCOPES_def)

lemma sample_upd: "(sample_creds sc ex)\<lparr>scopes := sc', expiry := ex'\<rparr> = sample_creds sc' ex'"
  by (simp add: sample_creds_def)



lemma calendar_on_disk:
  "calendar fake_env (on_disk (sample_creds (VList SCOPES) None)) =
     (Inr (sample_creds (VList SCOPES) None), on_disk (sample_creds (VList SCOPES) None))"
  by (simp add: calendar_def load_on_disk sample_token sample_scopes sample_upd)

text \<open>The three shapes of a written \<^verbatim>\<open>start\<close> or \<^verbatim>\<open>end\<close>.\<close>

lemma when_value_cases:
  "when_value x timezone =
     (if length x = 10 then JObj [(''date'', JStr x)]
      else (case timezone of
              None \<Rightarrow> JObj [(''dateTime'', JStr x)]
            | Some tz \<Rightarrow>
                if tz \<noteq> [] then JObj [(''dateTime'', JStr x), (''timeZone'', JStr tz)]
                else JObj [(''dateTime'', JStr x)]))"
  by (simp add: when_value_def split: option.splits)

text \<open>
  A JSON object without a token, and an absent file: \<^verbatim>\<open>_load_creds\<close> goes straight to
  the interactive flow in both.
\<close>

lemma load_tokenless:
  "creds_file w = JsonObject d \<Longrightarrow> dict_get d ''token'' VNone = VNone \<Longrightarrow>
   load_creds e w = interactive_flow e w"
  by (simp add: load_creds_def read_creds_def refresh_if_expired_def authorize_if_invalid_def
      expired_def valid_def)

lemma load_absent:
  "creds_file w = NoFile \<Longrightarrow> load_creds e w = interactive_flow e w"
  by (simp add: load_creds_def read_creds_def refresh_if_expired_def authorize_if_invalid_def)

lemma modify_event_fields_get:
  "map_of (modify_event_fields ev summary start end_arg description location attendees timezone) ''summary'' =
     (case summary of None \<Rightarrow> map_of ev ''summary'' | Some s \<Rightarrow> Some (JStr s))"
  "map_of (modify_event_fields ev summary start end_arg description location attendees timezone) ''description'' =
     (case description of None \<Rightarrow> map_of ev ''description'' | Some s \<Rightarrow> Some (JStr s))"
  "map_of (modify_event_fields ev summary start end_arg description location attendees timezone) ''location'' =
     (case location of None \<Rightarrow> map_of ev ''location'' | Some s \<Rightarrow> Some (JStr s))"
  "map_of (modify_event_fields ev summary start end_arg description location attendees timezone) ''attendees'' =
     (case attendees of None \<Rightarrow> map_of ev ''attendees''
      | Some as \<Rightarrow> Some (JArr (map (\<lambda>a. JObj [(''email'', JStr a)]) as)))"
  "map_of (modify_event_fields ev summary start end_arg description location attendees timezone) ''start'' =
     (case start of None \<Rightarrow> map_of ev ''start'' | Some t \<Rightarrow> Some (when_value t timezone))"
  "map_of (modify_event_fields ev summary start end_arg description location attendees timezone) ''end'' =
     (case end_arg of None \<Rightarrow> map_of ev ''end'' | Some t \<Rightarrow> Some (when_value t timezone))"
  by (simp_all add: modify_event_fields_def Let_def update_conv' split: option.splits)

lemma modify_event_fields_other:
  "k \<notin> {''summary'', ''description'', ''location'', ''attendees'', ''start'', ''end''} \<Longrightarrow>
   map_of (modify_event_fields ev summary start end_arg description location attendees timezone) k = map_of ev k"
  by (simp add: modify_event_fields_def Let_def update_conv' split: option.splits)

lemma modify_event_fields_none:
  "modify_event_fields ev None None None None None None timezone = ev"
  by (simp add: modify_event_fields_def)

lemma update_task_fields_get:
  "map_of (update_task_fields e t title notes status due) ''title'' =
     (case title of None \<Rightarrow> map_of t ''title'' | Some s \<Rightarrow> Some (JStr s))"
  "map_of (update_task_fields e t title notes status due) ''notes'' =
     (case notes of None \<Rightarrow> map_of t ''notes'' | Some s \<Rightarrow> Some (JStr s))"
  "map_of (update_task_fields e t title notes status due) ''status'' =
     (case status of None \<Rightarrow> map_of t ''status'' | Some s \<Rightarrow> Some (JStr s))"
  "map_of (update_task_fields e t title notes status due) ''due'' =
     (case due of None \<Rightarrow> map_of t ''due'' | Some s \<Rightarrow> Some (JStr s))"
  by (simp_all add: update_task_fields_def Let_def update_conv' delete_conv' split: option.splits)

lemma update_task_fields_other:
  "k \<notin> {''title'', ''notes'', ''status'', ''due'', ''completed''} \<Longrightarrow>
   map_of (update_task_fields e t title notes status due) k = map_of t k"
  by (simp add: update_task_fields_def Let_def update_conv' delete_conv' split: option.splits)

lemma update_task_fields_none:
  "update_task_fields e t None None None None = t"
  by (simp add: update_task_fields_def)

lemma update_task_fields_completed:
  "map_of (update_task_fields e t title notes status due) ''completed'' =
     (case status of
        None \<Rightarrow> map_of t ''completed''
      | Some s \<Rightarrow>
          if s = ''completed'' then Some (JStr (isoformat e (utcnow e)))
          else if s = ''needsAction'' then None
          else map_of t ''completed'')"
  by (simp add: update_task_fields_def Let_def update_conv' delete_conv' split: option.splits)

lemma modify_event_trace:
  "calendar e w = (Inr svc, wa) \<Longrightarrow> events_get e svc calendar_id event_id = Inr ev \<Longrightarrow>
   trace (snd (modify_event e event_id summary start end_arg description location attendees timezone calendar_id w)) =
     trace wa @ [EventsGet calendar_id event_id,
                 EventsUpdate calendar_id event_id
                   (modify_event_fields ev summary start end_arg description location attendees timezone)]"
  by (simp add: modify_event_def snd_api_error_handler modify_event_body_def Let_def split: sum.splits)

lemma update_task_trace:
  "tasks e w = (Inr svc, wa) \<Longrightarrow> tasks_get e svc task_list_id task_id = Inr t \<Longrightarrow>
   trace (snd (update_task e task_list_id task_id title notes status due w)) =
     trace wa @ [TasksGet task_list_id task_id,
                 TasksUpdate task_list_id task_id (update_task_fields e t title notes status due)]"
  by (simp add: update_task_def snd_api_error_handler update_task_body_def Let_def split: sum.splits)

lemma tasks_on_disk:
  "tasks fake_env (on_disk (sample_creds (VList SCOPES) None)) =
     (Inr (sample_creds (VList SCOPES) None), on_disk (sample_creds (VList SCOPES) None))"
  by (simp add: tasks_def load_on_disk sample_token sample_scopes sample_upd)

lemma show_nat_1000: "show_nat 1000 = ''1000''"
  by code_simp

lemma fake_now: "isoformat fake_env (utcnow fake_env) = ''T1000''"
  by (simp add: fake_env_def show_nat_1000)

section \<open>The error adapter\<close>



section \<open>The credential store\<close>

text \<open>
  Claim C2, as amended. Saving a credential set and loading it again gives a credential
  set with the same token, refresh token, token endpoint, client id and client secret.
  The scope list is the same when it was a non-empty list; an absent or empty scope list
  comes back as the three required scopes. (Nothing is said here about the expiry.)
\<close>

theorem save_then_read_creds:
  "\<exists>Y. read_creds (save_creds e X w) = Inr (Some Y) \<and>
        token Y = token X \<and> refresh_token Y = refresh_token X \<and> token_uri Y = token_uri X \<and>
        client_id Y = client_id X \<and> client_secret Y = client_secret X \<and>
        (\<forall>xs. scopes X = VList xs \<and> xs \<noteq> [] \<longrightarrow> scopes Y = scopes X) \<and>
        (\<not> truthy (scopes X) \<longrightarrow> scopes Y = VList SCOPES)"
proof -
  let ?Y = "\<lparr>token = token X, refresh_token = refresh_token X, token_uri = token_uri X,
             client_id = client_id X, client_secret = client_secret X,
             scopes = VList (scopes_or_default (scopes X)), expiry = None\<rparr>"
  have r: "read_creds (save_creds e X w) = Inr (Some ?Y)"
    by (rule read_after_save)
  have s1: "\<forall>xs. scopes X = VList xs \<and> xs \<noteq> [] \<longrightarrow> scopes ?Y = scopes X"
    by simp
  have s2: "\<not> truthy (scopes X) \<longrightarrow> scopes ?Y = VList SCOPES"
    by (cases "scopes X") simp_all
  from r s1 s2 show ?thesis by (intro exI[of _ ?Y]) simp
qed

theorem save_then_read_creds_witness:
  "scopes (sample_creds (VList SCOPES) (Some 4600)) = VList SCOPES \<and> SCOPES \<noteq> [] \<and>
   \<not> truthy (scopes (sample_creds VNone None)) \<and>
   (\<exists>Y. read_creds (save_creds fake_env (sample_creds (VList SCOPES) (Some 4600)) (fake_world NoFile True)) = Inr (Some Y) \<and>
        token Y = VStr ''tok'' \<and> scopes Y = VList SCOPES) \<and>
   (\<exists>Y. read_creds (save_creds fake_env (sample_creds VNone None) (fake_world NoFile True)) = Inr (Some Y) \<and>
        scopes Y = VList SCOPES)"
proof -
  have h1: "scopes (sample_creds (VList SCOPES) (Some 4600)) = VList SCOPES \<and> SCOPES \<noteq> []"
    by (simp add: sample_creds_def SCOPES_def)
  have h2: "\<not> truthy (scopes (sample_creds VNone None))"
    by (simp add: sample_creds_def)
  have t: "token (sample_creds (VList SCOPES) (Some 4600)) = VStr ''tok''"
    by (simp add: sample_creds_def)
  from save_then_read_creds[of fake_env "sample_creds (VList SCOPES) (Some 4600)" "fake_world NoFile True"] h1 t
  have a: "\<exists>Y. read_creds (save_creds fake_env (sample_creds (VList SCOPES) (Some 4600)) (fake_world NoFile True)) = Inr (Some Y) \<and>
        token Y = VStr ''tok'' \<and> scopes Y = VList SCOPES"
    by metis
  from save_then_read_creds[of fake_env "sample_creds VNone None" "fake_world NoFile True"] h2
  have b: "\<exists>Y. read_creds (save_creds fake_env (sample_creds VNone None) (fake_world NoFile True)) = Inr (Some Y) \<and>
        scopes Y = VList SCOPES"
    by metis
  from h1 h2 a b show ?thesis by blast
qed

text \<open>
  The round trip as C2 states it fails on the sample credential set with an empty scope
  list and expiry 4600: what is loaded has the three required scopes and no expiry.
\<close>

theorem save_then_read_creds_counterexample:
  "read_creds (save_creds fake_env (sample_creds (VList []) (Some 4600)) (fake_world NoFile True)) =
     Inr (Some (sample_creds (VList SCOPES) None)) \<and>
   scopes (sample_creds (VList SCOPES) None) \<noteq> scopes (sample_creds (VList []) (Some 4600)) \<and>
   expiry (sample_creds (VList SCOPES) None) \<noteq> expiry (sample_creds (VList []) (Some 4600))"
  by (simp add: read_after_save) (simp add: sample_creds_def SCOPES_def)

text \<open>
  Claim C8, as amended. A credential file that is not JSON, or whose JSON value is not an
  object, makes the store's load fail (\<^verbatim>\<open>JSONDecodeError\<close>, \<^verbatim>\<open>AttributeError\<close>), where
  an absent file gives \<^verbatim>\<open>None\<close> without a fault; the Authenticator passes the fault on
  and leaves the world as it was (no interactive authorization), and a tool returns it to
  its caller as an \<^verbatim>\<open>Error:\<close> text. A file holding a JSON object is always accepted,
  its missing keys read as absent; one without a token is then handled by the
  Authenticator exactly as an absent file is: it goes to the interactive flow.
\<close>

theorem load_creds_corrupt_file:
  "(creds_file w = NotJson msg \<longrightarrow>
      read_creds w = Inl (Exception JSONDecodeError msg) \<and>
      load_creds e w = (Inl (Exception JSONDecodeError msg), w) \<and>
      delete_event e event_id calendar_id w = (Inr (''Error: '' @ msg), w)) \<and>
   (creds_file w = NonObject ty \<longrightarrow>
      (\<exists>m. read_creds w = Inl (Exception AttributeError m) \<and>
           load_creds e w = (Inl (Exception AttributeError m), w) \<and>
           delete_event e event_id calendar_id w = (Inr (''Error: '' @ m), w))) \<and>
   read_creds (w\<lparr>creds_file := NoFile\<rparr>) = Inr None \<and>
   (creds_file w = JsonObject d \<longrightarrow> (\<exists>c. read_creds w = Inr (Some c))) \<and>
   (creds_file w = JsonObject d \<and> dict_get d ''token'' VNone = VNone \<longrightarrow>
      load_creds e w = interactive_flow e w) \<and>
   (creds_file w = NoFile \<longrightarrow> load_creds e w = interactive_flow e w)"
proof (intro conjI impI)
  assume "creds_file w = NotJson msg"
  then show "read_creds w = Inl (Exception JSONDecodeError msg)"
    and "load_creds e w = (Inl (Exception JSONDecodeError msg), w)"
    and "delete_event e event_id calendar_id w = (Inr (''Error: '' @ msg), w)"
    by (simp_all add: read_creds_def load_creds_def delete_event_def delete_event_body_def
        calendar_def api_error_handler_def)
next
  assume "creds_file w = NonObject ty"
  then show "\<exists>m. read_creds w = Inl (Exception AttributeError m) \<and>
           load_creds e w = (Inl (Exception AttributeError m), w) \<and>
           delete_event e event_id calendar_id w = (Inr (''Error: '' @ m), w)"
    by (simp add: read_creds_def load_creds_def delete_event_def delete_event_body_def
        calendar_def api_error_handler_def)
next
  show "read_creds (w\<lparr>creds_file := NoFile\<rparr>) = Inr None"
    by (simp add: read_creds_def)
next
  assume "creds_file w = JsonObject d"
  then show "\<exists>c. read_creds w = Inr (Some c)"
    by (simp add: read_creds_def)
next
  assume "creds_file w = JsonObject d \<and> dict_get d ''token'' VNone = VNone"
  then show "load_creds e w = interactive_flow e w"
    by (simp add: load_tokenless)
next
  assume "creds_file w = NoFile"
  then show "load_creds e w = interactive_flow e w"
    by (rule load_absent)
qed

theorem load_creds_corrupt_file_witness:
  "creds_file (fake_world (NotJson ''Expecting value: line 1 column 1 (char 0)'') True) =
     NotJson ''Expecting value: line 1 column 1 (char 0)'' \<and>
   load_creds fake_env (fake_world (NotJson ''Expecting value: line 1 column 1 (char 0)'') True) =
     (Inl (Exception JSONDecodeError ''Expecting value: line 1 column 1 (char 0)''),
      fake_world (NotJson ''Expecting value: line 1 column 1 (char 0)'') True) \<and>
   delete_event fake_env ''E1'' ''primary''
       (fake_world (NotJson ''Expecting value: line 1 column 1 (char 0)'') True) =
     (Inr ''Error: Expecting value: line 1 column 1 (char 0)'',
      fake_world (NotJson ''Expecting value: line 1 column 1 (char 0)'') True) \<and>
   creds_file (fake_world (NonObject ''list'') True) = NonObject ''list'' \<and>
   (\<exists>m. load_creds fake_env (fake_world (NonObject ''list'') True) =
          (Inl (Exception AttributeError m), fake_world (NonObject ''list'') True)) \<and>
   creds_file (fake_world (JsonObject []) True) = JsonObject [] \<and>
   dict_get [] ''token'' VNone = VNone \<and>
   (\<exists>c. read_creds (fake_world (JsonObject []) True) = Inr (Some c)) \<and>
   load_creds fake_env (fake_world (JsonObject []) True) =
     interactive_flow fake_env (fake_world (JsonObject []) True) \<and>
   creds_file (fake_world NoFile True) = NoFile \<and>
   load_creds fake_env (fake_world NoFile True) = interactive_flow fake_env (fake_world NoFile True)"
proof -
  let ?m = "''Expecting value: line 1 column 1 (char 0)''"
  have h1: "creds_file (fake_world (NotJson ?m) True) = NotJson ?m"
    by (simp add: fake_world_def)
  have h2: "creds_file (fake_world (NonObject ''list'') True) = NonObject ''list''"
    by (simp add: fake_world_def)
  have h3: "creds_file (fake_world (JsonObject []) True) = JsonObject []"
    by (simp add: fake_world_def)
  have h4: "dict_get [] ''token'' VNone = VNone"
    by (simp add: dict_get_def)
  have h5: "creds_file (fake_world NoFile True) = NoFile"
    by (simp add: fake_world_def)
  note a = load_creds_corrupt_file [where w = "fake_world (NotJson ?m) True" and msg = ?m
      and e = fake_env and event_id = "''E1''" and calendar_id = "''primary''"]
  note b = load_creds_corrupt_file [where w = "fake_world (NonObject ''list'') True"
      and ty = "''list''" and e = fake_env]
  note c = load_creds_corrupt_file [where w = "fake_world (JsonObject []) True" and d = "[]"
      and e = fake_env]
  note n = load_creds_corrupt_file [where w = "fake_world NoFile True" and e = fake_env]
  from a h1 have r1: "load_creds fake_env (fake_world (NotJson ?m) True) =
      (Inl (Exception JSONDecodeError ?m), fake_world (NotJson ?m) True) \<and>
    delete_event fake_env ''E1'' ''primary'' (fake_world (NotJson ?m) True) =
      (Inr (''Error: '' @ ?m), fake_world (NotJson ?m) True)"
    by blast
  from b h2 have r2: "\<exists>m. load_creds fake_env (fake_world (NonObject ''list'') True) =
      (Inl (Exception AttributeError m), fake_world (NonObject ''list'') True)"
    by blast
  from c h3 h4 have r3: "(\<exists>c. read_creds (fake_world (JsonObject []) True) = Inr (Some c)) \<and>
    load_creds fake_env (fake_world (JsonObject []) True) =
      interactive_flow fake_env (fake_world (JsonObject []) True)"
    by blast
  from n h5 have r4: "load_creds fake_env (fake_world NoFile True) =
      interactive_flow fake_env (fake_world NoFile True)"
    by blast
  from r1 have r1': "load_creds fake_env (fake_world (NotJson ?m) True) =
      (Inl (Exception JSONDecodeError ?m), fake_world (NotJson ?m) True) \<and>
    delete_event fake_env ''E1'' ''primary'' (fake_world (NotJson ?m) True) =
      (Inr ''Error: Expecting value: line 1 column 1 (char 0)'', fake_world (NotJson ?m) True)"
    by simp
  from h1 h2 h3 h4 h5 r1' r2 r3 r4 show ?thesis by blast
qed

text \<open>
  The claim as C8 states it fails on a credential file that exists but is not the
  expected structure, a JSON object with a mistyped \<^verbatim>\<open>tokn\<close> key in place of
  \<^verbatim>\<open>token\<close>: the load does not fail, and the Authenticator does what it does when the
  file is absent. It starts the interactive flow and overwrites the file.
\<close>

theorem load_creds_corrupt_counterexample:
  "read_creds (fake_world (JsonObject [(''tokn'', VStr ''tok''), (''refresh_token'', VStr ''r0'')]) True) =
     Inr (Some \<lparr>token = VNone, refresh_token = VStr ''r0'',
                token_uri = VStr ''https://oauth2.googleapis.com/token'',
                client_id = VNone, client_secret = VNone, scopes = VList SCOPES, expiry = None\<rparr>) \<and>
   load_creds fake_env (fake_world (JsonObject [(''tokn'', VStr ''tok''), (''refresh_token'', VStr ''r0'')]) True) =
     load_creds fake_env (fake_world NoFile True) \<and>
   fst (load_creds fake_env (fake_world (JsonObject [(''tokn'', VStr ''tok''), (''refresh_token'', VStr ''r0'')]) True)) =
     Inr (sample_creds (VList SCOPES) (Some 4600)) \<and>
   trace (snd (load_creds fake_env (fake_world (JsonObject [(''tokn'', VStr ''tok''), (''refresh_token'', VStr ''r0'')]) True))) =
     [InteractiveFlow SCOPES, WriteCreds (creds_data fake_env (sample_creds (VList SCOPES) (Some 4600)))] \<and>
   creds_file (snd (load_creds fake_env (fake_world (JsonObject [(''tokn'', VStr ''tok''), (''refresh_token'', VStr ''r0'')]) True))) =
     JsonObject (creds_data fake_env (sample_creds (VList SCOPES) (Some 4600)))"
proof -
  let ?w = "fake_world (JsonObject [(''tokn'', VStr ''tok''), (''refresh_token'', VStr ''r0'')]) True"
  let ?g = "sample_creds (VList SCOPES) (Some 4600)"
  have r: "read_creds ?w =
     Inr (Some \<lparr>token = VNone, refresh_token = VStr ''r0'',
                token_uri = VStr ''https://oauth2.googleapis.com/token'',
                client_id = VNone, client_secret = VNone, scopes = VList SCOPES, expiry = None\<rparr>)"
    by (simp add: read_creds_def fake_world_def dict_get_def)
  have f: "run_local_server fake_env SCOPES = Inr ?g"
    by (simp add: fake_env_def)
  have l1: "load_creds fake_env ?w = interactive_flow fake_env ?w"
    by (rule load_tokenless [where d = "[(''tokn'', VStr ''tok''), (''refresh_token'', VStr ''r0'')]"]) (simp_all add: fake_world_def dict_get_def)
  have l2: "load_creds fake_env (fake_world NoFile True) = interactive_flow fake_env (fake_world NoFile True)"
    by (rule load_absent) (simp add: fake_world_def)
  have i1: "interactive_flow fake_env ?w =
      (Inr ?g, \<lparr>creds_file = JsonObject (creds_data fake_env ?g), client_secret_exists = True,
                trace = [InteractiveFlow SCOPES, WriteCreds (creds_data fake_env ?g)]\<rparr>)"
    by (simp add: interactive_flow_def f save_creds_def fake_world_def)
  have i2: "interactive_flow fake_env (fake_world NoFile True) =
      (Inr ?g, \<lparr>creds_file = JsonObject (creds_data fake_env ?g), client_secret_exists = True,
                trace = [InteractiveFlow SCOPES, WriteCreds (creds_data fake_env ?g)]\<rparr>)"
    by (simp add: interactive_flow_def f save_creds_def fake_world_def)
  from r l1 l2 i1 i2 show ?thesis by simp
qed

section \<open>The Authenticator\<close>

text \<open>
  Claim C3. A credential set on disk whose expiry lies in the future should come back
  from the Authenticator unchanged, with no network call and nothing written. The run
  below stores the sample credential set with expiry 4600 while the clock stands at
  1000: nothing is exchanged and nothing is written (the world is the same afterwards),
  but the credential set that comes back has lost its expiry, because the store's load
  never reads the \<^verbatim>\<open>expiry\<close> key that \<^verbatim>\<open>_save_creds\<close> writes.
\<close>

theorem load_creds_future_expiry_dropped:
  "\<not> expired fake_env (sample_creds (VList SCOPES) (Some 4600)) \<and>
   load_creds fake_env (on_disk (sample_creds (VList SCOPES) (Some 4600))) =
     (Inr (sample_creds (VList SCOPES) None), on_disk (sample_creds (VList SCOPES) (Some 4600))) \<and>
   sample_creds (VList SCOPES) None \<noteq> sample_creds (VList SCOPES) (Some 4600)"
proof -
  have a: "\<not> expired fake_env (sample_creds (VList SCOPES) (Some 4600))"
    by (simp add: expired_def sample_creds_def fake_env_def)
  have b: "load_creds fake_env (on_disk (sample_creds (VList SCOPES) (Some 4600))) =
     (Inr (sample_creds (VList SCOPES) None), on_disk (sample_creds (VList SCOPES) (Some 4600)))"
    by (simp add: load_on_disk sample_token sample_scopes sample_upd)
  have c: "sample_creds (VList SCOPES) None \<noteq> sample_creds (VList SCOPES) (Some 4600)"
    by (simp add: sample_creds_def)
  from a b c show ?thesis by blast
qed

text \<open>
  Claim C4. A credential set on disk whose expiry lies in the past and that has a refresh
  token should be refreshed once and persisted once. The run below stores the sample
  credential set with expiry 500 while the clock stands at 1000: it is expired and has a
  refresh token, yet \<^verbatim>\<open>_load_creds\<close> returns the stale token with an empty trace: no
  refresh exchange and no write, for the same reason as in C3.
\<close>

theorem load_creds_past_expiry_not_refreshed:
  "expired fake_env (sample_creds (VList SCOPES) (Some 500)) \<and>
   truthy (refresh_token (sample_creds (VList SCOPES) (Some 500))) \<and>
   load_creds fake_env (on_disk (sample_creds (VList SCOPES) (Some 500))) =
     (Inr (sample_creds (VList SCOPES) None), on_disk (sample_creds (VList SCOPES) (Some 500))) \<and>
   trace (on_disk (sample_creds (VList SCOPES) (Some 500))) = []"
proof -
  have a: "expired fake_env (sample_creds (VList SCOPES) (Some 500))"
    by (simp add: expired_def sample_creds_def fake_env_def)
  have a': "truthy (refresh_token (sample_creds (VList SCOPES) (Some 500)))"
    by (simp add: sample_creds_def)
  have b: "load_creds fake_env (on_disk (sample_creds (VList SCOPES) (Some 500))) =
     (Inr (sample_creds (VList SCOPES) None), on_disk (sample_creds (VList SCOPES) (Some 500)))"
    by (simp add: load_on_disk sample_token sample_scopes sample_upd)
  have c: "trace (on_disk (sample_creds (VList SCOPES) (Some 500))) = []"
    by (simp add: on_disk_def)
  from a a' b c show ?thesis by blast
qed

text \<open>
  Claim C5. With no credential file and no \<^verbatim>\<open>client_secret.json\<close>, the Authenticator
  fails with the \<^verbatim>\<open>RuntimeError\<close> that names the missing descriptor and leaves the
  world as it was: no refresh exchange, no consent flow, no write.
\<close>

theorem load_creds_client_secret_missing:
  assumes "creds_file w = NoFile" and "\<not> client_secret_exists w"
  shows "load_creds e w =
           (Inl (Exception RuntimeError
                   (''No credentials and no client_secret.json at '' @ client_secret_path e)), w)"
  using assms
  by (simp add: load_creds_def read_creds_def refresh_if_expired_def authorize_if_invalid_def interactive_flow_def)

theorem load_creds_client_secret_missing_witness:
  "creds_file (fake_world NoFile False) = NoFile \<and>
   \<not> client_secret_exists (fake_world NoFile False) \<and>
   load_creds fake_env (fake_world NoFile False) =
     (Inl (Exception RuntimeError
             ''No credentials and no client_secret.json at /srv/gapi/client_secret.json''),
      fake_world NoFile False) \<and>
   trace (fake_world NoFile False) = []"
proof -
  have h1: "creds_file (fake_world NoFile False) = NoFile"
    by (simp add: fake_world_def)
  have h2: "\<not> client_secret_exists (fake_world NoFile False)"
    by (simp add: fake_world_def)
  have t: "trace (fake_world NoFile False) = []"
    by (simp add: fake_world_def)
  from load_creds_client_secret_missing [OF h1 h2, of fake_env] h1 h2 t
  show ?thesis by (simp add: fake_env_def)
qed

text \<open>
  Claim C6, as amended. The Authenticator does not check scopes. A credential file with a
  token is returned with the scope list exactly as stored (the three required scopes when
  the file has no \<^verbatim>\<open>scopes\<close> key), and the world is untouched: no re-authorization.
  The three required scopes are what the interactive flow asks for when it runs.
\<close>

theorem load_creds_scopes_as_stored:
  "(creds_file w = JsonObject d \<and> dict_get d ''token'' VNone \<noteq> VNone \<longrightarrow>
      (\<exists>c. load_creds e w = (Inr c, w) \<and> scopes c = dict_get d ''scopes'' (VList SCOPES))) \<and>
   (creds_file w = NoFile \<and> client_secret_exists w \<and> run_local_server e SCOPES = Inr c' \<longrightarrow>
      load_creds e w = (Inr c', save_creds e c' (w\<lparr>trace := trace w @ [InteractiveFlow SCOPES]\<rparr>)))"
proof (intro conjI impI)
  assume "creds_file w = JsonObject d \<and> dict_get d ''token'' VNone \<noteq> VNone"
  then show "\<exists>c. load_creds e w = (Inr c, w) \<and> scopes c = dict_get d ''scopes'' (VList SCOPES)"
    by (simp add: load_object)
next
  assume "creds_file w = NoFile \<and> client_secret_exists w \<and> run_local_server e SCOPES = Inr c'"
  then show "load_creds e w = (Inr c', save_creds e c' (w\<lparr>trace := trace w @ [InteractiveFlow SCOPES]\<rparr>))"
    by (simp add: load_creds_def read_creds_def refresh_if_expired_def authorize_if_invalid_def interactive_flow_def)
qed

theorem load_creds_scopes_as_stored_witness:
  "creds_file (on_disk (sample_creds (VList [''https://www.googleapis.com/auth/calendar'']) None)) = JsonObject (creds_data fake_env (sample_creds (VList [''https://www.googleapis.com/auth/calendar'']) None)) \<and>
   dict_get (creds_data fake_env (sample_creds (VList [''https://www.googleapis.com/auth/calendar'']) None)) ''token'' VNone \<noteq> VNone \<and>
   (\<exists>c. load_creds fake_env (on_disk (sample_creds (VList [''https://www.googleapis.com/auth/calendar'']) None)) = (Inr c, on_disk (sample_creds (VList [''https://www.googleapis.com/auth/calendar'']) None)) \<and>
        scopes c = VList [''https://www.googleapis.com/auth/calendar'']) \<and>
   creds_file (fake_world NoFile True) = NoFile \<and>
   client_secret_exists (fake_world NoFile True) \<and>
   run_local_server fake_env SCOPES = Inr (sample_creds (VList SCOPES) (Some 4600)) \<and>
   load_creds fake_env (fake_world NoFile True) =
     (Inr (sample_creds (VList SCOPES) (Some 4600)),
      save_creds fake_env (sample_creds (VList SCOPES) (Some 4600))
        ((fake_world NoFile True)\<lparr>trace := trace (fake_world NoFile True) @ [InteractiveFlow SCOPES]\<rparr>))"
proof -
  let ?c = "sample_creds (VList [''https://www.googleapis.com/auth/calendar'']) None"
  let ?d = "creds_data fake_env ?c"
  let ?g = "sample_creds (VList SCOPES) (Some 4600)"
  have h1: "creds_file (on_disk ?c) = JsonObject ?d"
    by (simp add: on_disk_def)
  have h2: "dict_get ?d ''token'' VNone \<noteq> VNone"
    by (simp add: dict_get_def map_of_creds_data sample_token)
  have sc: "dict_get ?d ''scopes'' (VList SCOPES) = VList [''https://www.googleapis.com/auth/calendar'']"
    by (simp add: dict_get_def map_of_creds_data sample_creds_def)
  have h3: "creds_file (fake_world NoFile True) = NoFile"
    by (simp add: fake_world_def)
  have h4: "client_secret_exists (fake_world NoFile True)"
    by (simp add: fake_world_def)
  have h5: "run_local_server fake_env SCOPES = Inr ?g"
    by (simp add: fake_env_def)
  from load_creds_scopes_as_stored [where w = "on_disk ?c" and d = ?d and e = fake_env] h1 h2 sc
  have r1: "\<exists>c. load_creds fake_env (on_disk ?c) = (Inr c, on_disk ?c) \<and>
        scopes c = VList [''https://www.googleapis.com/auth/calendar'']"
    by simp
  from load_creds_scopes_as_stored [where w = "fake_world NoFile True" and e = fake_env and c' = ?g]
    h3 h4 h5
  have r2: "load_creds fake_env (fake_world NoFile True) =
     (Inr ?g, save_creds fake_env ?g
        ((fake_world NoFile True)\<lparr>trace := trace (fake_world NoFile True) @ [InteractiveFlow SCOPES]\<rparr>))"
    by blast
  from h1 h2 h3 h4 h5 r1 r2 show ?thesis by blast
qed

text \<open>
  The claim as C6 states it fails on a stored credential set whose scope list holds the
  calendar scope only: it is returned as it is, with an empty trace.
\<close>

theorem load_creds_scopes_counterexample:
  "load_creds fake_env (on_disk (sample_creds (VList [''https://www.googleapis.com/auth/calendar'']) None)) = (Inr (sample_creds (VList [''https://www.googleapis.com/auth/calendar'']) None), on_disk (sample_creds (VList [''https://www.googleapis.com/auth/calendar'']) None)) \<and>
   scopes (sample_creds (VList [''https://www.googleapis.com/auth/calendar'']) None) = VList [''https://www.googleapis.com/auth/calendar''] \<and>
   \<not> set SCOPES \<subseteq> set [''https://www.googleapis.com/auth/calendar''] \<and>
   trace (on_disk (sample_creds (VList [''https://www.googleapis.com/auth/calendar'']) None)) = []"
proof -
  have a: "load_creds fake_env (on_disk (sample_creds (VList [''https://www.googleapis.com/auth/calendar'']) None)) = (Inr (sample_creds (VList [''https://www.googleapis.com/auth/calendar'']) None), on_disk (sample_creds (VList [''https://www.googleapis.com/auth/calendar'']) None))"
    by (simp add: load_on_disk sample_token sample_upd) (simp add: sample_creds_def)
  have b: "scopes (sample_creds (VList [''https://www.googleapis.com/auth/calendar'']) None) = VList [''https://www.googleapis.com/auth/calendar'']"
    by (simp add: sample_creds_def)
  have c: "\<not> set SCOPES \<subseteq> set [''https://www.googleapis.com/auth/calendar'']"
    by (simp add: SCOPES_def)
  have d: "trace (on_disk (sample_creds (VList [''https://www.googleapis.com/auth/calendar'']) None)) = []"
    by (simp add: on_disk_def)
  from a b c d show ?thesis by blast
qed

section \<open>The update tools\<close>

text \<open>
  Claim C7. \<^verbatim>\<open>modify_event\<close> and \<^verbatim>\<open>update_task\<close> fetch the resource, set the fields
  whose parameters are given and send the result back as the body of the update. In that
  body a field whose parameter is omitted (\<^verbatim>\<open>None\<close>) has the fetched value, a field
  whose parameter is given has the value made from the parameter, and every key without a
  parameter is as fetched (for a task, all but \<^verbatim>\<open>completed\<close>, which follows the
  status). A given \<^verbatim>\<open>start\<close> or \<^verbatim>\<open>end\<close> is written as a \<^verbatim>\<open>date\<close> when the text has
  length 10, and as a \<^verbatim>\<open>dateTime\<close> otherwise, with the \<^verbatim>\<open>timeZone\<close> when a non-empty
  timezone is given. With all optional parameters omitted the body is the fetched
  resource.
\<close>

theorem partial_update_frame:
  assumes "body = modify_event_fields ev summary start end_arg description location attendees timezone"
      and "tbody = update_task_fields e t title notes_arg status due"
  shows
    "map_of body ''summary'' = (case summary of None \<Rightarrow> map_of ev ''summary'' | Some s \<Rightarrow> Some (JStr s)) \<and>
     map_of body ''description'' =
       (case description of None \<Rightarrow> map_of ev ''description'' | Some s \<Rightarrow> Some (JStr s)) \<and>
     map_of body ''location'' = (case location of None \<Rightarrow> map_of ev ''location'' | Some s \<Rightarrow> Some (JStr s)) \<and>
     map_of body ''attendees'' =
       (case attendees of None \<Rightarrow> map_of ev ''attendees''
        | Some as \<Rightarrow> Some (JArr (map (\<lambda>a. JObj [(''email'', JStr a)]) as))) \<and>
     map_of body ''start'' =
       (case start of None \<Rightarrow> map_of ev ''start''
        | Some x \<Rightarrow>
            Some (if length x = 10 then JObj [(''date'', JStr x)]
                  else (case timezone of
                          None \<Rightarrow> JObj [(''dateTime'', JStr x)]
                        | Some tz \<Rightarrow>
                            if tz \<noteq> [] then JObj [(''dateTime'', JStr x), (''timeZone'', JStr tz)]
                            else JObj [(''dateTime'', JStr x)]))) \<and>
     map_of body ''end'' =
       (case end_arg of None \<Rightarrow> map_of ev ''end''
        | Some x \<Rightarrow>
            Some (if length x = 10 then JObj [(''date'', JStr x)]
                  else (case timezone of
                          None \<Rightarrow> JObj [(''dateTime'', JStr x)]
                        | Some tz \<Rightarrow>
                            if tz \<noteq> [] then JObj [(''dateTime'', JStr x), (''timeZone'', JStr tz)]
                            else JObj [(''dateTime'', JStr x)]))) \<and>
     (\<forall>k. k \<notin> {''summary'', ''description'', ''location'', ''attendees'', ''start'', ''end''} \<longrightarrow>
          map_of body k = map_of ev k) \<and>
     (summary = None \<and> start = None \<and> end_arg = None \<and> description = None \<and> location = None \<and>
      attendees = None \<longrightarrow> body = ev) \<and>
     (calendar e w = (Inr svc, wa) \<and> events_get e svc calendar_id event_id = Inr ev \<longrightarrow>
        trace (snd (modify_event e event_id summary start end_arg description location attendees
                      timezone calendar_id w)) =
          trace wa @ [EventsGet calendar_id event_id, EventsUpdate calendar_id event_id body]) \<and>
     map_of tbody ''title'' = (case title of None \<Rightarrow> map_of t ''title'' | Some s \<Rightarrow> Some (JStr s)) \<and>
     map_of tbody ''notes'' = (case notes_arg of None \<Rightarrow> map_of t ''notes'' | Some s \<Rightarrow> Some (JStr s)) \<and>
     map_of tbody ''status'' = (case status of None \<Rightarrow> map_of t ''status'' | Some s \<Rightarrow> Some (JStr s)) \<and>
     map_of tbody ''due'' = (case due of None \<Rightarrow> map_of t ''due'' | Some s \<Rightarrow> Some (JStr s)) \<and>
     (\<forall>k. k \<notin> {''title'', ''notes'', ''status'', ''due'', ''completed''} \<longrightarrow> map_of tbody k = map_of t k) \<and>
     (title = None \<and> notes_arg = None \<and> status = None \<and> due = None \<longrightarrow> tbody = t) \<and>
     (tasks e w = (Inr tsvc, wb) \<and> tasks_get e tsvc task_list_id task_id = Inr t \<longrightarrow>
        trace (snd (update_task e task_list_id task_id title notes_arg status due w)) =
          trace wb @ [TasksGet task_list_id task_id, TasksUpdate task_list_id task_id tbody])"
proof -
  note b = assms(1) and tb = assms(2)
  have e1: "map_of body ''summary'' = (case summary of None \<Rightarrow> map_of ev ''summary'' | Some s \<Rightarrow> Some (JStr s))"
    unfolding b by (rule modify_event_fields_get(1))
  have e2: "map_of body ''description'' =
       (case description of None \<Rightarrow> map_of ev ''description'' | Some s \<Rightarrow> Some (JStr s))"
    unfolding b by (rule modify_event_fields_get(2))
  have e3: "map_of body ''location'' = (case location of None \<Rightarrow> map_of ev ''location'' | Some s \<Rightarrow> Some (JStr s))"
    unfolding b by (rule modify_event_fields_get(3))
  have e4: "map_of body ''attendees'' =
       (case attendees of None \<Rightarrow> map_of ev ''attendees''
        | Some as \<Rightarrow> Some (JArr (map (\<lambda>a. JObj [(''email'', JStr a)]) as)))"
    unfolding b by (rule modify_event_fields_get(4))
  have e5: "map_of body ''start'' =
       (case start of None \<Rightarrow> map_of ev ''start''
        | Some x \<Rightarrow>
            Some (if length x = 10 then JObj [(''date'', JStr x)]
                  else (case timezone of
                          None \<Rightarrow> JObj [(''dateTime'', JStr x)]
                        | Some tz \<Rightarrow>
                            if tz \<noteq> [] then JObj [(''dateTime'', JStr x), (''timeZone'', JStr tz)]
                            else JObj [(''dateTime'', JStr x)])))"
    unfolding b by (simp only: modify_event_fields_get(5) when_value_cases)
  have e6: "map_of body ''end'' =
       (case end_arg of None \<Rightarrow> map_of ev ''end''
        | Some x \<Rightarrow>
            Some (if length x = 10 then JObj [(''date'', JStr x)]
                  else (case timezone of
                          None \<Rightarrow> JObj [(''dateTime'', JStr x)]
                        | Some tz \<Rightarrow>
                            if tz \<noteq> [] then JObj [(''dateTime'', JStr x), (''timeZone'', JStr tz)]
                            else JObj [(''dateTime'', JStr x)])))"
    unfolding b by (simp only: modify_event_fields_get(6) when_value_cases)
  have e7: "\<forall>k. k \<notin> {''summary'', ''description'', ''location'', ''attendees'', ''start'', ''end''} \<longrightarrow>
          map_of body k = map_of ev k"
    unfolding b by (intro allI impI) (rule modify_event_fields_other)
  have e8: "summary = None \<and> start = None \<and> end_arg = None \<and> description = None \<and> location = None \<and>
      attendees = None \<longrightarrow> body = ev"
    unfolding b by (auto simp: modify_event_fields_none)
  have e9: "calendar e w = (Inr svc, wa) \<and> events_get e svc calendar_id event_id = Inr ev \<longrightarrow>
        trace (snd (modify_event e event_id summary start end_arg description location attendees
                      timezone calendar_id w)) =
          trace wa @ [EventsGet calendar_id event_id, EventsUpdate calendar_id event_id body]"
    unfolding b by (auto simp: modify_event_trace)
  have t1: "map_of tbody ''title'' = (case title of None \<Rightarrow> map_of t ''title'' | Some s \<Rightarrow> Some (JStr s))"
    unfolding tb by (rule update_task_fields_get(1))
  have t2: "map_of tbody ''notes'' = (case notes_arg of None \<Rightarrow> map_of t ''notes'' | Some s \<Rightarrow> Some (JStr s))"
    unfolding tb by (rule update_task_fields_get(2))
  have t3: "map_of tbody ''status'' = (case status of None \<Rightarrow> map_of t ''status'' | Some s \<Rightarrow> Some (JStr s))"
    unfolding tb by (rule update_task_fields_get(3))
  have t4: "map_of tbody ''due'' = (case due of None \<Rightarrow> map_of t ''due'' | Some s \<Rightarrow> Some (JStr s))"
    unfolding tb by (rule update_task_fields_get(4))
  have t5: "\<forall>k. k \<notin> {''title'', ''notes'', ''status'', ''due'', ''completed''} \<longrightarrow> map_of tbody k = map_of t k"
    unfolding tb by (intro allI impI) (rule update_task_fields_other)
  have t6: "title = None \<and> notes_arg = None \<and> status = None \<and> due = None \<longrightarrow> tbody = t"
    unfolding tb by (auto simp: update_task_fields_none)
  have t7: "tasks e w = (Inr tsvc, wb) \<and> tasks_get e tsvc task_list_id task_id = Inr t \<longrightarrow>
        trace (snd (update_task e task_list_id task_id title notes_arg status due w)) =
          trace wb @ [TasksGet task_list_id task_id, TasksUpdate task_list_id task_id tbody]"
    unfolding tb by (auto simp: update_task_trace)
  from e1 e2 e3 e4 e5 e6 e7 e8 e9 t1 t2 t3 t4 t5 t6 t7 show ?thesis
    by (intro conjI)
qed

theorem partial_update_frame_witness:
  "modify_event_fields fake_event None None None None None None None = fake_event \<and>
   update_task_fields fake_env fake_task None None None None = fake_task \<and>
   map_of (modify_event_fields fake_event (Some ''Retro'') (Some ''2026-03-01'')
        (Some ''2026-03-01T11:00:00+01:00'') None None None (Some ''Europe/Amsterdam'')) ''summary'' = Some (JStr ''Retro'') \<and>
   map_of (modify_event_fields fake_event (Some ''Retro'') (Some ''2026-03-01'')
        (Some ''2026-03-01T11:00:00+01:00'') None None None (Some ''Europe/Amsterdam'')) ''start'' = Some (JObj [(''date'', JStr ''2026-03-01'')]) \<and>
   map_of (modify_event_fields fake_event (Some ''Retro'') (Some ''2026-03-01'')
        (Some ''2026-03-01T11:00:00+01:00'') None None None (Some ''Europe/Amsterdam'')) ''end'' =
     Some (JObj [(''dateTime'', JStr ''2026-03-01T11:00:00+01:00''),
                 (''timeZone'', JStr ''Europe/Amsterdam'')]) \<and>
   map_of (modify_event_fields fake_event (Some ''Retro'') (Some ''2026-03-01'')
        (Some ''2026-03-01T11:00:00+01:00'') None None None (Some ''Europe/Amsterdam'')) ''location'' = None \<and>
   ''id'' \<notin> {''summary'', ''description'', ''location'', ''attendees'', ''start'', ''end''} \<and>
   map_of (modify_event_fields fake_event (Some ''Retro'') (Some ''2026-03-01'')
        (Some ''2026-03-01T11:00:00+01:00'') None None None (Some ''Europe/Amsterdam'')) ''id'' = Some (JStr ''E1'') \<and>
   map_of (modify_event_fields fake_event None (Some ''2026-03-01T10:00:00+01:00'') None None None None None) ''start'' = Some (JObj [(''dateTime'', JStr ''2026-03-01T10:00:00+01:00'')]) \<and>
   map_of (modify_event_fields fake_event None (Some ''2026-03-01T10:00:00+01:00'') None None None None None) ''end'' = Some (JObj [(''dateTime'', JStr ''2026-02-28T10:15:00+01:00'')]) \<and>
   calendar fake_env (on_disk (sample_creds (VList SCOPES) None)) =
     (Inr (sample_creds (VList SCOPES) None), on_disk (sample_creds (VList SCOPES) None)) \<and>
   events_get fake_env (sample_creds (VList SCOPES) None) ''primary'' ''E1'' = Inr fake_event \<and>
   trace (snd (modify_event fake_env ''E1'' (Some ''Retro'') (Some ''2026-03-01'')
                 (Some ''2026-03-01T11:00:00+01:00'') None None None (Some ''Europe/Amsterdam'')
                 ''primary'' (on_disk (sample_creds (VList SCOPES) None)))) =
     [EventsGet ''primary'' ''E1'', EventsUpdate ''primary'' ''E1'' (modify_event_fields fake_event (Some ''Retro'') (Some ''2026-03-01'')
        (Some ''2026-03-01T11:00:00+01:00'') None None None (Some ''Europe/Amsterdam''))] \<and>
   map_of (update_task_fields fake_env fake_task (Some ''Buy oat milk'') None None None) ''title'' =
     Some (JStr ''Buy oat milk'') \<and>
   ''id'' \<notin> {''title'', ''notes'', ''status'', ''due'', ''completed''} \<and>
   map_of (update_task_fields fake_env fake_task (Some ''Buy oat milk'') None None None) ''id'' =
     Some (JStr ''T1'') \<and>
   tasks fake_env (on_disk (sample_creds (VList SCOPES) None)) =
     (Inr (sample_creds (VList SCOPES) None), on_disk (sample_creds (VList SCOPES) None)) \<and>
   tasks_get fake_env (sample_creds (VList SCOPES) None) ''L1'' ''T1'' = Inr fake_task \<and>
   trace (snd (update_task fake_env ''L1'' ''T1'' (Some ''Buy oat milk'') None None None
                 (on_disk (sample_creds (VList SCOPES) None)))) =
     [TasksGet ''L1'' ''T1'',
      TasksUpdate ''L1'' ''T1'' (update_task_fields fake_env fake_task (Some ''Buy oat milk'') None None None)]"
proof -
  let ?c = "sample_creds (VList SCOPES) None"
  let ?M = "(modify_event_fields fake_event (Some ''Retro'') (Some ''2026-03-01'')
        (Some ''2026-03-01T11:00:00+01:00'') None None None (Some ''Europe/Amsterdam''))"
  let ?P = "(modify_event_fields fake_event None (Some ''2026-03-01T10:00:00+01:00'') None None None None None)"
  have g: "events_get fake_env ?c ''primary'' ''E1'' = Inr fake_event"
    by (simp add: fake_env_def)
  have tg: "tasks_get fake_env ?c ''L1'' ''T1'' = Inr fake_task"
    by (simp add: fake_env_def)
  have k1: "''id'' \<notin> {''summary'', ''description'', ''location'', ''attendees'', ''start'', ''end''}"
    by simp
  have k2: "''id'' \<notin> {''title'', ''notes'', ''status'', ''due'', ''completed''}"
    by simp
  have tr: "trace (on_disk ?c) = []"
    by (simp add: on_disk_def)
  have id1: "map_of fake_event ''id'' = Some (JStr ''E1'')"
    and loc1: "map_of fake_event ''location'' = None"
    and en1: "map_of fake_event ''end'' = Some (JObj [(''dateTime'', JStr ''2026-02-28T10:15:00+01:00'')])"
    by (simp_all add: fake_event_def)
  have id2: "map_of fake_task ''id'' = Some (JStr ''T1'')"
    by (simp add: fake_task_def)
  have l1: "length ''2026-03-01'' = 10"
    and l2: "length ''2026-03-01T11:00:00+01:00'' \<noteq> 10"
    and l3: "length ''2026-03-01T10:00:00+01:00'' \<noteq> 10"
    by simp_all
  note none = partial_update_frame [OF refl refl, where ev = fake_event and summary = None
      and start = None and end_arg = None and description = None and location = None
      and attendees = None and timezone = None and e = fake_env and t = fake_task
      and title = None and notes_arg = None and status = None and due = None]
  note some = partial_update_frame [OF refl refl, where ev = fake_event and summary = "Some ''Retro''"
      and start = "Some ''2026-03-01''" and end_arg = "Some ''2026-03-01T11:00:00+01:00''"
      and description = None and location = None
      and attendees = None and timezone = "Some ''Europe/Amsterdam''" and e = fake_env and t = fake_task
      and title = "Some ''Buy oat milk''" and notes_arg = None and status = None and due = None
      and w = "on_disk ?c" and svc = ?c and wa = "on_disk ?c" and tsvc = ?c and wb = "on_disk ?c"
      and calendar_id = "''primary''" and event_id = "''E1''"
      and task_list_id = "''L1''" and task_id = "''T1''"]
  note plain = partial_update_frame [OF refl refl, where ev = fake_event and summary = None
      and start = "Some ''2026-03-01T10:00:00+01:00''" and end_arg = None
      and description = None and location = None and attendees = None and timezone = None]
  have n1: "modify_event_fields fake_event None None None None None None None = fake_event"
    using none [THEN conjunct2, THEN conjunct2, THEN conjunct2, THEN conjunct2, THEN conjunct2, THEN conjunct2, THEN conjunct2, THEN conjunct1] by simp
  have n2: "update_task_fields fake_env fake_task None None None None = fake_task"
    using none [THEN conjunct2, THEN conjunct2, THEN conjunct2, THEN conjunct2, THEN conjunct2, THEN conjunct2, THEN conjunct2, THEN conjunct2, THEN conjunct2, THEN conjunct2, THEN conjunct2, THEN conjunct2, THEN conjunct2, THEN conjunct2, THEN conjunct1] by simp
  have s1: "map_of ?M ''summary'' = Some (JStr ''Retro'')"
    using some [THEN conjunct1] by simp
  have s2: "map_of ?M ''start'' = Some (JObj [(''date'', JStr ''2026-03-01'')])"
    using some [THEN conjunct2, THEN conjunct2, THEN conjunct2, THEN conjunct2, THEN conjunct1] l1 by simp
  have s3: "map_of ?M ''end'' =
     Some (JObj [(''dateTime'', JStr ''2026-03-01T11:00:00+01:00''),
                 (''timeZone'', JStr ''Europe/Amsterdam'')])"
    using some [THEN conjunct2, THEN conjunct2, THEN conjunct2, THEN conjunct2, THEN conjunct2, THEN conjunct1] l2 by simp
  have s4: "map_of ?M ''location'' = None"
    using some [THEN conjunct2, THEN conjunct2, THEN conjunct1] loc1 by simp
  have s5: "map_of ?M ''id'' = Some (JStr ''E1'')"
    using some [THEN conjunct2, THEN conjunct2, THEN conjunct2, THEN conjunct2, THEN conjunct2, THEN conjunct2, THEN conjunct1, THEN spec, of "''id''"] k1 id1 by simp
  have p1: "map_of ?P ''start'' = Some (JObj [(''dateTime'', JStr ''2026-03-01T10:00:00+01:00'')])"
    using plain [THEN conjunct2, THEN conjunct2, THEN conjunct2, THEN conjunct2, THEN conjunct1] l3 by simp
  have p2: "map_of ?P ''end'' = Some (JObj [(''dateTime'', JStr ''2026-02-28T10:15:00+01:00'')])"
    using plain [THEN conjunct2, THEN conjunct2, THEN conjunct2, THEN conjunct2, THEN conjunct2, THEN conjunct1] en1 by simp
  have s6: "trace (snd (modify_event fake_env ''E1'' (Some ''Retro'') (Some ''2026-03-01'')
                 (Some ''2026-03-01T11:00:00+01:00'') None None None (Some ''Europe/Amsterdam'')
                 ''primary'' (on_disk ?c))) =
     [EventsGet ''primary'' ''E1'', EventsUpdate ''primary'' ''E1'' ?M]"
    using some [THEN conjunct2, THEN conjunct2, THEN conjunct2, THEN conjunct2, THEN conjunct2, THEN conjunct2, THEN conjunct2, THEN conjunct2, THEN conjunct1] calendar_on_disk g tr by simp
  have u1: "map_of (update_task_fields fake_env fake_task (Some ''Buy oat milk'') None None None) ''title'' =
     Some (JStr ''Buy oat milk'')"
    using some [THEN conjunct2, THEN conjunct2, THEN conjunct2, THEN conjunct2, THEN conjunct2, THEN conjunct2, THEN conjunct2, THEN conjunct2, THEN conjunct2, THEN conjunct1] by simp
  have u2: "map_of (update_task_fields fake_env fake_task (Some ''Buy oat milk'') None None None) ''id'' =
     Some (JStr ''T1'')"
    using some [THEN conjunct2, THEN conjunct2, THEN conjunct2, THEN conjunct2, THEN conjunct2, THEN conjunct2, THEN conjunct2, THEN conjunct2, THEN conjunct2, THEN conjunct2, THEN conjunct2, THEN conjunct2, THEN conjunct2, THEN conjunct1, THEN spec, of "''id''"] k2 id2 by simp
  have u3: "trace (snd (update_task fake_env ''L1'' ''T1'' (Some ''Buy oat milk'') None None None
                 (on_disk ?c))) =
     [TasksGet ''L1'' ''T1'',
      TasksUpdate ''L1'' ''T1'' (update_task_fields fake_env fake_task (Some ''Buy oat milk'') None None None)]"
    using some [THEN conjunct2, THEN conjunct2, THEN conjunct2, THEN conjunct2, THEN conjunct2, THEN conjunct2, THEN conjunct2, THEN conjunct2, THEN conjunct2, THEN conjunct2, THEN conjunct2, THEN conjunct2, THEN conjunct2, THEN conjunct2, THEN conjunct2] tasks_on_disk tg tr by simp
  from n1 n2 s1 s2 s3 s4 k1 s5 p1 p2 calendar_on_disk g s6 u1 k2 u2 tasks_on_disk tg u3 show ?thesis
    by (intro conjI)
qed

text \<open>
  Claim C10. In the body that \<^verbatim>\<open>update_task\<close> writes back: a status of
  \<^verbatim>\<open>completed\<close> sets \<^verbatim>\<open>completed\<close> to the current UTC time in ISO format; a status of
  \<^verbatim>\<open>needsAction\<close> removes \<^verbatim>\<open>completed\<close>; with the status omitted, \<^verbatim>\<open>status\<close> and
  \<^verbatim>\<open>completed\<close> are as fetched.
\<close>

theorem update_task_status_completed:
  assumes "body = update_task_fields e t title notes_arg status due"
  shows
    "(status = Some ''completed'' \<longrightarrow>
        map_of body ''completed'' = Some (JStr (isoformat e (utcnow e))) \<and>
        map_of body ''status'' = Some (JStr ''completed'')) \<and>
     (status = Some ''needsAction'' \<longrightarrow>
        map_of body ''completed'' = None \<and> map_of body ''status'' = Some (JStr ''needsAction'')) \<and>
     (status = None \<longrightarrow>
        map_of body ''status'' = map_of t ''status'' \<and> map_of body ''completed'' = map_of t ''completed'') \<and>
     (tasks e w = (Inr svc, wa) \<and> tasks_get e svc task_list_id task_id = Inr t \<longrightarrow>
        trace (snd (update_task e task_list_id task_id title notes_arg status due w)) =
          trace wa @ [TasksGet task_list_id task_id, TasksUpdate task_list_id task_id body])"
proof -
  note b = assms
  have a1: "status = Some ''completed'' \<longrightarrow>
        map_of body ''completed'' = Some (JStr (isoformat e (utcnow e))) \<and>
        map_of body ''status'' = Some (JStr ''completed'')"
    unfolding b by (simp add: update_task_fields_completed update_task_fields_get(3))
  have a2: "status = Some ''needsAction'' \<longrightarrow>
        map_of body ''completed'' = None \<and> map_of body ''status'' = Some (JStr ''needsAction'')"
    unfolding b by (simp add: update_task_fields_completed update_task_fields_get(3))
  have a3: "status = None \<longrightarrow>
        map_of body ''status'' = map_of t ''status'' \<and> map_of body ''completed'' = map_of t ''completed''"
    unfolding b by (simp add: update_task_fields_completed update_task_fields_get(3))
  have a4: "tasks e w = (Inr svc, wa) \<and> tasks_get e svc task_list_id task_id = Inr t \<longrightarrow>
        trace (snd (update_task e task_list_id task_id title notes_arg status due w)) =
          trace wa @ [TasksGet task_list_id task_id, TasksUpdate task_list_id task_id body]"
    unfolding b by (auto simp: update_task_trace)
  from a1 a2 a3 a4 show ?thesis by (intro conjI)
qed

theorem update_task_status_completed_witness:
  "map_of fake_task ''completed'' = Some (JStr ''2026-02-27T09:00:00+00:00'') \<and>
   map_of (update_task_fields fake_env fake_task None None (Some ''completed'') None) ''completed'' =
     Some (JStr ''T1000'') \<and>
   map_of (update_task_fields fake_env fake_task None None (Some ''needsAction'') None) ''completed'' = None \<and>
   map_of (update_task_fields fake_env fake_task None None (Some ''needsAction'') None) ''status'' =
     Some (JStr ''needsAction'') \<and>
   map_of (update_task_fields fake_env fake_task (Some ''Buy oat milk'') None None None) ''status'' =
     Some (JStr ''completed'') \<and>
   map_of (update_task_fields fake_env fake_task (Some ''Buy oat milk'') None None None) ''completed'' =
     Some (JStr ''2026-02-27T09:00:00+00:00'') \<and>
   tasks fake_env (on_disk (sample_creds (VList SCOPES) None)) =
     (Inr (sample_creds (VList SCOPES) None), on_disk (sample_creds (VList SCOPES) None)) \<and>
   tasks_get fake_env (sample_creds (VList SCOPES) None) ''L1'' ''T1'' = Inr fake_task \<and>
   trace (snd (update_task fake_env ''L1'' ''T1'' None None (Some ''needsAction'') None
                 (on_disk (sample_creds (VList SCOPES) None)))) =
     [TasksGet ''L1'' ''T1'',
      TasksUpdate ''L1'' ''T1'' (update_task_fields fake_env fake_task None None (Some ''needsAction'') None)]"
proof -
  let ?c = "sample_creds (VList SCOPES) None"
  have tg: "tasks_get fake_env ?c ''L1'' ''T1'' = Inr fake_task"
    by (simp add: fake_env_def)
  have tr: "trace (on_disk ?c) = []"
    by (simp add: on_disk_def)
  have f1: "map_of fake_task ''completed'' = Some (JStr ''2026-02-27T09:00:00+00:00'')"
    and f2: "map_of fake_task ''status'' = Some (JStr ''completed'')"
    by (simp_all add: fake_task_def)
  note compl = update_task_status_completed [OF refl, where e = fake_env and t = fake_task
      and title = None and notes_arg = None and status = "Some ''completed''" and due = None]
  note undone = update_task_status_completed [OF refl, where e = fake_env and t = fake_task
      and title = None and notes_arg = None and status = "Some ''needsAction''" and due = None
      and w = "on_disk ?c" and svc = ?c and wa = "on_disk ?c"
      and task_list_id = "''L1''" and task_id = "''T1''"]
  note kept = update_task_status_completed [OF refl, where e = fake_env and t = fake_task
      and title = "Some ''Buy oat milk''" and notes_arg = None and status = None and due = None]
  have d1: "map_of (update_task_fields fake_env fake_task None None (Some ''completed'') None) ''completed'' =
     Some (JStr ''T1000'')"
    using compl by (simp add: fake_now)
  have n1: "map_of (update_task_fields fake_env fake_task None None (Some ''needsAction'') None) ''completed'' = None"
    and n2: "map_of (update_task_fields fake_env fake_task None None (Some ''needsAction'') None) ''status'' =
     Some (JStr ''needsAction'')"
    using undone by simp_all
  have k1: "map_of (update_task_fields fake_env fake_task (Some ''Buy oat milk'') None None None) ''status'' =
     Some (JStr ''completed'')"
    and k2: "map_of (update_task_fields fake_env fake_task (Some ''Buy oat milk'') None None None) ''completed'' =
     Some (JStr ''2026-02-27T09:00:00+00:00'')"
    using kept f1 f2 by simp_all
  have t1: "trace (snd (update_task fake_env ''L1'' ''T1'' None None (Some ''needsAction'') None (on_disk ?c))) =
     [TasksGet ''L1'' ''T1'',
      TasksUpdate ''L1'' ''T1'' (update_task_fields fake_env fake_task None None (Some ''needsAction'') None)]"
    using undone tasks_on_disk tg tr by simp
  from f1 d1 n1 n2 k1 k2 tasks_on_disk tg t1 show ?thesis by (intro conjI)
qed

end
